theory Spec2Isabelle
  imports Complex_Main
begin

section \<open>JavaScript numbers and values\<close>

text \<open>
  The gallery template computes with JavaScript Numbers. A Number is modelled as an exact
  real, or one of the three special values that division by zero and arithmetic on
  \<^verbatim>\<open>undefined\<close> produce. Arithmetic on finite values is exact: the rounding of
  IEEE-754 binary64 and the sign of zero are not modelled (a zero divisor counts as
  \<^verbatim>\<open>+0\<close>).
\<close>

datatype jsnum = Finite real | PosInf | NegInf | NaN

definition infOfSign :: "real \<Rightarrow> jsnum" where
  "infOfSign a = (if a = 0 then NaN else if 0 < a then PosInf else NegInf)"

fun jneg :: "jsnum \<Rightarrow> jsnum" where
  "jneg (Finite a) = Finite (- a)"
| "jneg PosInf = NegInf"
| "jneg NegInf = PosInf"
| "jneg NaN = NaN"

fun jadd :: "jsnum \<Rightarrow> jsnum \<Rightarrow> jsnum" where
  "jadd (Finite a) (Finite b) = Finite (a + b)"
| "jadd NaN y = NaN"
| "jadd x NaN = NaN"
| "jadd PosInf NegInf = NaN"
| "jadd NegInf PosInf = NaN"
| "jadd PosInf y = PosInf"
| "jadd x PosInf = PosInf"
| "jadd NegInf y = NegInf"
| "jadd x NegInf = NegInf"

definition jsub :: "jsnum \<Rightarrow> jsnum \<Rightarrow> jsnum" where
  "jsub x y = jadd x (jneg y)"

fun jmul :: "jsnum \<Rightarrow> jsnum \<Rightarrow> jsnum" where
  "jmul (Finite a) (Finite b) = Finite (a * b)"
| "jmul NaN y = NaN"
| "jmul x NaN = NaN"
| "jmul (Finite a) PosInf = infOfSign a"
| "jmul PosInf (Finite b) = infOfSign b"
| "jmul (Finite a) NegInf = infOfSign (- a)"
| "jmul NegInf (Finite b) = infOfSign (- b)"
| "jmul PosInf PosInf = PosInf"
| "jmul NegInf NegInf = PosInf"
| "jmul PosInf NegInf = NegInf"
| "jmul NegInf PosInf = NegInf"

fun jdiv :: "jsnum \<Rightarrow> jsnum \<Rightarrow> jsnum" where
  "jdiv (Finite a) (Finite b) = (if b = 0 then infOfSign a else Finite (a / b))"
| "jdiv NaN y = NaN"
| "jdiv x NaN = NaN"
| "jdiv (Finite a) PosInf = Finite 0"
| "jdiv (Finite a) NegInf = Finite 0"
| "jdiv PosInf (Finite b) = (if b < 0 then NegInf else PosInf)"
| "jdiv NegInf (Finite b) = (if b < 0 then PosInf else NegInf)"
| "jdiv PosInf PosInf = NaN"
| "jdiv PosInf NegInf = NaN"
| "jdiv NegInf PosInf = NaN"
| "jdiv NegInf NegInf = NaN"

text \<open>The relational operator \<^verbatim>\<open><\<close>: every comparison with \<^verbatim>\<open>NaN\<close> is false.\<close>

fun jless :: "jsnum \<Rightarrow> jsnum \<Rightarrow> bool" where
  "jless (Finite a) (Finite b) = (a < b)"
| "jless NaN y = False"
| "jless x NaN = False"
| "jless NegInf NegInf = False"
| "jless NegInf y = True"
| "jless x NegInf = False"
| "jless PosInf y = False"
| "jless x PosInf = True"

text \<open>The values that reach the arithmetic of the template, and \<^verbatim>\<open>ToNumber\<close> on them.\<close>

datatype jsval = Undefined | Null | JNumber jsnum | JString string

abbreviation ofNatural :: "nat \<Rightarrow> jsnum" where
  "ofNatural n \<equiv> Finite (of_nat n)"

subsection \<open>Strings to numbers and back\<close>

text \<open>
  \<^verbatim>\<open>StringToNumber\<close>: white space is trimmed, the empty string is 0, and the rest must
  be a \<^verbatim>\<open>StrNumericLiteral\<close> (an optionally signed decimal literal with optional
  fraction and exponent, \<^verbatim>\<open>Infinity\<close>, or an unsigned literal with prefix
  \<^verbatim>\<open>0x\<close>, \<^verbatim>\<open>0o\<close> or \<^verbatim>\<open>0b\<close>); every other string is \<^verbatim>\<open>NaN\<close>. The white space
  recognised is the ASCII one.
\<close>

definition isWhite :: "char \<Rightarrow> bool" where
  "isWhite c = (c \<in> set [CHR 0x09, CHR 0x0A, CHR 0x0B, CHR 0x0C, CHR 0x0D, CHR '' ''])"

definition trim :: "string \<Rightarrow> string" where
  "trim s = rev (dropWhile isWhite (rev (dropWhile isWhite s)))"

text \<open>The digits \<^verbatim>\<open>0\<close> to \<^verbatim>\<open>9\<close> are the codes 48 to 57; \<^verbatim>\<open>a\<close> to \<^verbatim>\<open>f\<close> are 97 to 102 and
  \<^verbatim>\<open>A\<close> to \<^verbatim>\<open>F\<close> are 65 to 70.\<close>

definition isDigit :: "char \<Rightarrow> bool" where
  "isDigit c = (48 \<le> (of_char c :: nat) \<and> (of_char c :: nat) \<le> 57)"

definition hexVal :: "char \<Rightarrow> nat option" where
  "hexVal c =
     (let n = (of_char c :: nat)
      in if 48 \<le> n \<and> n \<le> 57 then Some (n - 48)
         else if 97 \<le> n \<and> n \<le> 102 then Some (n - 87)
         else if 65 \<le> n \<and> n \<le> 70 then Some (n - 55)
         else None)"

definition digitVal :: "nat \<Rightarrow> char \<Rightarrow> nat option" where
  "digitVal radix c = (case hexVal c of None \<Rightarrow> None | Some v \<Rightarrow> if v < radix then Some v else None)"

definition digitsVal :: "nat \<Rightarrow> string \<Rightarrow> nat" where
  "digitsVal radix s = foldl (\<lambda>n c. radix * n + (case digitVal radix c of None \<Rightarrow> 0 | Some v \<Rightarrow> v)) 0 s"

definition pow10 :: "int \<Rightarrow> real" where
  "pow10 k = (if 0 \<le> k then 10 ^ nat k else 1 / 10 ^ nat (- k))"

definition exponentPart :: "string \<Rightarrow> int option" where
  "exponentPart s =
     (case s of
        [] \<Rightarrow> Some 0
      | c # r \<Rightarrow>
          if c = CHR ''e'' \<or> c = CHR ''E'' then
            (let neg = (case r of [] \<Rightarrow> False | x # r' \<Rightarrow> x = CHR ''-'');
                 ds = (case r of [] \<Rightarrow> [] | x # r' \<Rightarrow> if x = CHR ''-'' \<or> x = CHR ''+'' then r' else r)
             in if ds \<noteq> [] \<and> list_all isDigit ds
                then Some (if neg then - int (digitsVal 10 ds) else int (digitsVal 10 ds))
                else None)
          else None)"

definition unsignedDecimal :: "string \<Rightarrow> jsnum option" where
  "unsignedDecimal s =
     (if s = ''Infinity'' then Some PosInf
      else
        let ip = takeWhile isDigit s;
            r1 = dropWhile isDigit s;
            fp = (case r1 of [] \<Rightarrow> [] | c # r \<Rightarrow> if c = CHR ''.'' then takeWhile isDigit r else []);
            r2 = (case r1 of [] \<Rightarrow> [] | c # r \<Rightarrow> if c = CHR ''.'' then dropWhile isDigit r else r1)
        in if ip = [] \<and> fp = [] then None
           else (case exponentPart r2 of
                   None \<Rightarrow> None
                 | Some k \<Rightarrow>
                     Some (Finite ((of_nat (digitsVal 10 ip) + of_nat (digitsVal 10 fp) / 10 ^ length fp)
                                   * pow10 k))))"

definition strDecimalLiteral :: "string \<Rightarrow> jsnum option" where
  "strDecimalLiteral s =
     (case s of
        [] \<Rightarrow> None
      | c # r \<Rightarrow>
          if c = CHR ''+'' then unsignedDecimal r
          else if c = CHR ''-'' then map_option jneg (unsignedDecimal r)
          else unsignedDecimal s)"

definition nonDecimalIntegerLiteral :: "string \<Rightarrow> jsnum option" where
  "nonDecimalIntegerLiteral s =
     (case s of
        z # p # ds \<Rightarrow>
          (let radix = (if p \<in> set ''xX'' then 16 else if p \<in> set ''oO'' then 8
                        else if p \<in> set ''bB'' then 2 else 0)
           in if z = CHR ''0'' \<and> radix \<noteq> 0 \<and> ds \<noteq> [] \<and> list_all (\<lambda>c. digitVal radix c \<noteq> None) ds
              then Some (ofNatural (digitsVal radix ds))
              else None)
      | _ \<Rightarrow> None)"

definition StringToNumber :: "string \<Rightarrow> jsnum" where
  "StringToNumber s =
     (let t = trim s
      in if t = [] then Finite 0
         else (case nonDecimalIntegerLiteral t of
                 Some n \<Rightarrow> n
               | None \<Rightarrow> (case strDecimalLiteral t of Some n \<Rightarrow> n | None \<Rightarrow> NaN)))"

fun ToNumber :: "jsval \<Rightarrow> jsnum" where
  "ToNumber Undefined = NaN"
| "ToNumber Null = Finite 0"
| "ToNumber (JNumber n) = n"
| "ToNumber (JString s) = StringToNumber s"

text \<open>\<^verbatim>\<open>Number(value)\<close> called as a function.\<close>

definition Number :: "jsval \<Rightarrow> jsnum" where
  "Number v = ToNumber v"

text \<open>
  \<^verbatim>\<open>ToString\<close> of an array index: its decimal digits. (Array indices stay below
  \<open>2 ^ 32\<close>, far from \<open>10 ^ 21\<close> where Numbers print with an exponent.)
\<close>

definition digitChar :: "nat \<Rightarrow> char" where
  "digitChar n = char_of (48 + n)"

fun decimal :: "nat \<Rightarrow> string" where
  "decimal n = (if n < 10 then [digitChar n] else decimal (n div 10) @ [digitChar (n mod 10)])"

declare decimal.simps [simp del]

abbreviation ofInt :: "int \<Rightarrow> jsnum" where
  "ofInt i \<equiv> Finite (of_int i)"

section \<open>The DOM as the template sees it\<close>

text \<open>
  A \<^verbatim>\<open>style.transform\<close> string is kept as the list of its transform functions, each
  with the Number that the template literal interpolates.
\<close>

datatype tfun = Translate jsnum jsnum | ScaleX jsnum | ScaleY jsnum | Scale jsnum

text \<open>
  The scale on each axis that a transform list composes to, and the offsets of its
  \<^verbatim>\<open>translate\<close>.
\<close>

fun scaleFactors :: "tfun list \<Rightarrow> jsnum \<times> jsnum" where
  "scaleFactors [] = (Finite 1, Finite 1)"
| "scaleFactors (Translate x y # fs) = scaleFactors fs"
| "scaleFactors (ScaleX a # fs) = (jmul a (fst (scaleFactors fs)), snd (scaleFactors fs))"
| "scaleFactors (ScaleY a # fs) = (fst (scaleFactors fs), jmul a (snd (scaleFactors fs)))"
| "scaleFactors (Scale a # fs) = (jmul a (fst (scaleFactors fs)), jmul a (snd (scaleFactors fs)))"


text \<open>
  An element: its layout box (the \<^verbatim>\<open>offset*\<close> attributes are integers), its class
  list, its inline style (the transform, and the rest of \<^verbatim>\<open>cssText\<close>) and its
  attributes (\<^verbatim>\<open>dataset.index\<close> reads the attribute \<^verbatim>\<open>data-index\<close>).
\<close>

record domnode =
  offsetLeft :: int
  offsetTop :: int
  offsetWidth :: int
  offsetHeight :: int
  classList :: "string list"
  styleTransform :: "tfun list"
  styleRest :: string
  attributes :: "(string \<times> string) list"

definition classListAdd :: "string \<Rightarrow> string list \<Rightarrow> string list" where
  "classListAdd c cs = (if c \<in> set cs then cs else cs @ [c])"

definition classListRemove :: "string \<Rightarrow> string list \<Rightarrow> string list" where
  "classListRemove c cs = filter (\<lambda>x. x \<noteq> c) cs"

text \<open>\<^verbatim>\<open>node.style = ''\<close> clears the whole inline style.\<close>

definition clearStyle :: "domnode \<Rightarrow> domnode" where
  "clearStyle n = n\<lparr>styleTransform := [], styleRest := []\<rparr>"

text \<open>
  A pending \<^verbatim>\<open>setTimeout\<close> callback. \<open>AddClass i c\<close> is
  \<^verbatim>\<open>() => card.classList.add(c)\<close> for the \<open>i\<close>-th gallery card; \<open>ExpandModal w h\<close> is
  the callback of the modal effect of galleries.js, which closes over the modal width and
  height; \<open>ExpandModal_p0\<close> is the callback of \<^verbatim>\<open>animateModal\<close> of part_000.
\<close>

datatype task = AddClass nat string | ExpandModal real real | ExpandModal_p0

text \<open>
  The state the effects work on: the React state and refs of the component, the elements
  they point to, and the timer queue (timeout and callback, in the order of the
  \<^verbatim>\<open>setTimeout\<close> calls). The effects run after the commit, when \<^verbatim>\<open>modalRef.current\<close>
  is the modal element; \<open>modalImageContainer\<close> is \<^verbatim>\<open>modal.childNodes[0]\<close>, and \<open>cards\<close>
  is \<^verbatim>\<open>document.querySelectorAll('.gallery__card')\<close>.
\<close>

record page =
  activeCard :: "domnode option"
  cardRefs :: "domnode option list"
  modal :: domnode
  modalImageContainer :: domnode
  cards :: "domnode list"
  timers :: "(jsnum \<times> task) list"

text \<open>What a timer callback reads from the document when it fires.\<close>

record env =
  bodyOffsetWidth :: int
  bodyOffsetHeight :: int
  parentTop :: real
  scrollY :: real

definition setTimeout :: "task \<Rightarrow> jsnum \<Rightarrow> page \<Rightarrow> page" where
  "setTimeout cb t st = st\<lparr>timers := timers st @ [(t, cb)]\<rparr>"

section \<open>galleries.js: the modal effect\<close>

definition cardSize :: real where "cardSize = 275"
definition delay :: real where "delay = 300"
definition modalHeight :: real where "modalHeight = 620.666"
definition modalWidth :: real where "modalWidth = 931"

text \<open>
  The effect \<^verbatim>\<open>useEffect(() => {...}, [activeCard])\<close>, with the constants it closes
  over (\<open>cs\<close> the card size, \<open>mw\<close> and \<open>mh\<close> the modal width and height, \<open>d\<close> the delay)
  as parameters.
\<close>

definition modalEffectWith :: "real \<Rightarrow> real \<Rightarrow> real \<Rightarrow> real \<Rightarrow> page \<Rightarrow> page" where
  "modalEffectWith cs mw mh d st =
     (case activeCard st of
        None \<Rightarrow> st
      | Some ac \<Rightarrow>
          let activeCardX =
                jadd (jsub (ofInt (offsetLeft ac)) (jdiv (Finite mw) (Finite 2)))
                     (jdiv (ofInt (offsetWidth ac)) (Finite 2));
              activeCardY =
                jadd (jsub (ofInt (offsetTop ac)) (jdiv (Finite mh) (Finite 2)))
                     (jdiv (ofInt (offsetHeight ac)) (Finite 2));
              st1 = st\<lparr>activeCard := Some (clearStyle ac)\<rparr>;
              st2 = st1\<lparr>modal := (modal st1)
                      \<lparr>classList := classListRemove ''is-active'' (classList (modal st1))\<rparr>\<rparr>;
              st3 = st2\<lparr>modal := (modal st2)
                      \<lparr>styleTransform :=
                         [Translate activeCardX activeCardY,
                          ScaleX (jdiv (Finite cs) (Finite mw)),
                          ScaleY (jdiv (Finite cs) (Finite mh))]\<rparr>\<rparr>;
              st4 = st3\<lparr>modalImageContainer := (modalImageContainer st3)
                      \<lparr>styleTransform :=
                         [ScaleX (jdiv (Finite mw) (Finite cs)),
                          ScaleY (jdiv (Finite mh) (Finite cs))]\<rparr>\<rparr>
          in setTimeout (ExpandModal mw mh) (jmul (Finite d) (Finite 2)) st4)"

definition modalEffect :: "page \<Rightarrow> page" where
  "modalEffect = modalEffectWith cardSize modalWidth modalHeight delay"

section \<open>part_000: animateModal\<close>

definition cardSize_p0 :: real where "cardSize_p0 = 275"
definition delay_p0 :: real where "delay_p0 = 300"
definition modalWidth_p0 :: real where "modalWidth_p0 = 931"
definition modalHeight_p0 :: real where "modalHeight_p0 = modalWidth_p0 * (2 / 3)"

text \<open>
  \<^verbatim>\<open>animateModal(delay, modal, modalParent, target)\<close>: the modal and its first child
  are those of the state, \<open>target\<close> is the active card.
\<close>

definition animateModal_p0 :: "jsval \<Rightarrow> domnode option \<Rightarrow> page \<Rightarrow> page" where
  "animateModal_p0 d target st =
     (case target of
        None \<Rightarrow> st
      | Some tg \<Rightarrow>
          let targetX =
                jadd (jsub (ofInt (offsetLeft tg)) (jdiv (ofInt (offsetWidth (modal st))) (Finite 2)))
                     (jdiv (ofInt (offsetWidth tg)) (Finite 2));
              targetY =
                jadd (jsub (ofInt (offsetTop tg)) (jdiv (ofInt (offsetHeight (modal st))) (Finite 2)))
                     (jdiv (ofInt (offsetHeight tg)) (Finite 2));
              st1 = st\<lparr>activeCard := Some (clearStyle tg)\<rparr>;
              st2 = st1\<lparr>modal := (modal st1)
                      \<lparr>styleTransform :=
                         [Translate targetX targetY,
                          ScaleX (jdiv (ofInt (offsetWidth tg)) (ofInt (offsetWidth (modal st1)))),
                          ScaleY (jdiv (ofInt (offsetHeight tg)) (ofInt (offsetHeight (modal st1))))]\<rparr>\<rparr>;
              st3 = st2\<lparr>modalImageContainer := (modalImageContainer st2)
                      \<lparr>styleTransform :=
                         [ScaleX (jdiv (ofInt (offsetWidth (modal st2))) (ofInt (offsetWidth tg))),
                          ScaleY (jdiv (ofInt (offsetHeight (modal st2))) (ofInt (offsetHeight tg)))]\<rparr>\<rparr>
          in setTimeout ExpandModal_p0 (jmul (ToNumber d) (Finite 2)) st3)"

text \<open>
  The effect of the component:
  \<^verbatim>\<open>() => animateModal(delay, modalRef.current, modalParentRef.current, activeCard)\<close>.
\<close>

definition modalEffect_p0 :: "page \<Rightarrow> page" where
  "modalEffect_p0 st = animateModal_p0 (JNumber (Finite delay_p0)) (activeCard st) st"

section \<open>Firing a timer\<close>

fun runTask :: "env \<Rightarrow> task \<Rightarrow> page \<Rightarrow> page" where
  "runTask e (AddClass i c) st =
     (if i < length (cards st)
      then st\<lparr>cards := (cards st)[i := (cards st ! i)\<lparr>classList := classListAdd c (classList (cards st ! i))\<rparr>]\<rparr>
      else st)"
| "runTask e (ExpandModal mw mh) st =
     (let centerX = jsub (jdiv (ofInt (bodyOffsetWidth e)) (Finite 2)) (jdiv (Finite mw) (Finite 2));
          centerY =
            jadd (jsub (jsub (jdiv (ofInt (bodyOffsetHeight e)) (Finite 2)) (jdiv (Finite mh) (Finite 2)))
                       (jdiv (Finite (parentTop e)) (Finite 2)))
                 (jdiv (Finite (scrollY e)) (Finite 2));
          st1 = st\<lparr>modal := (modal st)\<lparr>classList := classListAdd ''is-active'' (classList (modal st))\<rparr>\<rparr>;
          st2 = st1\<lparr>modal := (modal st1)
                  \<lparr>styleTransform :=
                     [Translate (jadd centerX (Finite 0.5)) centerY, ScaleX (Finite 1), ScaleY (Finite 1)]\<rparr>\<rparr>
      in st2\<lparr>modalImageContainer := (modalImageContainer st2)
               \<lparr>styleTransform := [ScaleX (Finite 1), ScaleY (Finite 1)]\<rparr>\<rparr>)"
| "runTask e ExpandModal_p0 st =
     (let centerX = jsub (jdiv (ofInt (bodyOffsetWidth e)) (Finite 2))
                         (jdiv (ofInt (offsetWidth (modal st))) (Finite 2));
          centerY =
            jadd (jsub (jsub (jdiv (ofInt (bodyOffsetHeight e)) (Finite 2))
                             (jdiv (ofInt (offsetHeight (modal st))) (Finite 2)))
                       (jdiv (Finite (parentTop e)) (Finite 2)))
                 (jdiv (Finite (scrollY e)) (Finite 2));
          st1 = st\<lparr>modal := (modal st)
                  \<lparr>styleTransform := [Translate (jadd centerX (Finite 0.5)) centerY, Scale (Finite 1)]\<rparr>\<rparr>
      in st1\<lparr>modalImageContainer := (modalImageContainer st1)\<lparr>styleTransform := [Scale (Finite 1)]\<rparr>\<rparr>)"

text \<open>Firing the callbacks of a queue one after the other.\<close>

fun runAll :: "env \<Rightarrow> (jsnum \<times> task) list \<Rightarrow> page \<Rightarrow> page" where
  "runAll e [] st = st"
| "runAll e ((t, cb) # rest) st = runAll e rest (runTask e cb st)"

section \<open>Revealing and lazily loading the cards\<close>

text \<open>
  The loop of \<^verbatim>\<open>displayGalleryCards\<close>, the same in both files:
  \<^verbatim>\<open>cards.forEach((card, index) => setTimeout(() => card.classList.add('is-visible'),
  (index * delay) / 3.666))\<close>, from position \<open>index\<close> on.
\<close>

fun displayCardsFrom :: "jsnum \<Rightarrow> nat \<Rightarrow> domnode list \<Rightarrow> page \<Rightarrow> page" where
  "displayCardsFrom d index [] st = st"
| "displayCardsFrom d index (cardEl # rest) st =
     displayCardsFrom d (Suc index) rest
       (setTimeout (AddClass index ''is-visible'') (jdiv (jmul (ofNatural index) d) (Finite 3.666)) st)"

text \<open>galleries.js: \<^verbatim>\<open>delay\<close> is the constant of the module.\<close>

definition displayGalleryCards :: "page \<Rightarrow> page" where
  "displayGalleryCards st = displayCardsFrom (Finite delay) 0 (cards st) st"

text \<open>part_000: \<^verbatim>\<open>delay\<close> is the argument.\<close>

definition displayGalleryCards_p0 :: "jsval \<Rightarrow> page \<Rightarrow> page" where
  "displayGalleryCards_p0 d st = displayCardsFrom (ToNumber d) 0 (cards st) st"

text \<open>
  An \<^verbatim>\<open>IntersectionObserverEntry\<close>: \<open>target\<close> is the observed card, by its position
  in \<open>cards\<close>.
\<close>

record entry =
  isIntersecting :: bool
  target :: nat

text \<open>
  The loop of the observer callback, the same in both files:
  \<^verbatim>\<open>entries.forEach(entry => { if (entry.isIntersecting) { setTimeout(() =>
  entry.target.classList.add('has-entered'), delay / 3); } })\<close>.
\<close>

fun observeEntries :: "jsnum \<Rightarrow> entry list \<Rightarrow> page \<Rightarrow> page" where
  "observeEntries d [] st = st"
| "observeEntries d (en # rest) st =
     observeEntries d rest
       (if isIntersecting en
        then setTimeout (AddClass (target en) ''has-entered'') (jdiv d (Finite 3)) st
        else st)"

definition observerCallback :: "entry list \<Rightarrow> page \<Rightarrow> page" where
  "observerCallback entries st = observeEntries (Finite delay) entries st"

definition setObserverCallback_p0 :: "jsval \<Rightarrow> entry list \<Rightarrow> page \<Rightarrow> page" where
  "setObserverCallback_p0 d entries st = observeEntries (ToNumber d) entries st"

text \<open>
  The utilities \<^verbatim>\<open>lazyLoad\<close> and \<^verbatim>\<open>moveElementsRelativeToMouse\<close> are imported from
  \<^verbatim>\<open>../utils\<close>; they are parameters of the effects that call them: \<open>lazyLoad\<close> takes
  the observer callback, \<open>moveElements\<close> is the call with its fixed options.

  galleries.js runs \<^verbatim>\<open>useEffect(() => { displayGalleryCards(); lazyLoad(observerCallback);
  moveElementsRelativeToMouse({...}); })\<close>.
\<close>

definition cardsEffect ::
  "((entry list \<Rightarrow> page \<Rightarrow> page) \<Rightarrow> page \<Rightarrow> page) \<Rightarrow> (page \<Rightarrow> page) \<Rightarrow> page \<Rightarrow> page" where
  "cardsEffect lazyLoad moveElements st =
     moveElements (lazyLoad observerCallback (displayGalleryCards st))"

text \<open>part_000: \<^verbatim>\<open>animateCards = delay => {...}\<close>.\<close>

definition animateCards_p0 ::
  "((entry list \<Rightarrow> page \<Rightarrow> page) \<Rightarrow> page \<Rightarrow> page) \<Rightarrow> (page \<Rightarrow> page) \<Rightarrow> jsval \<Rightarrow> page \<Rightarrow> page" where
  "animateCards_p0 lazyLoad moveElements d st =
     moveElements (lazyLoad (setObserverCallback_p0 d) (displayGalleryCards_p0 d st))"

text \<open>
  part_000 registers it as \<^verbatim>\<open>useEffect(animateCards)\<close>. React calls an effect with no
  argument, so the parameter \<^verbatim>\<open>delay\<close> is \<^verbatim>\<open>undefined\<close> in that call.
\<close>

definition cardsEffect_p0 ::
  "((entry list \<Rightarrow> page \<Rightarrow> page) \<Rightarrow> page \<Rightarrow> page) \<Rightarrow> (page \<Rightarrow> page) \<Rightarrow> page \<Rightarrow> page" where
  "cardsEffect_p0 lazyLoad moveElements st = animateCards_p0 lazyLoad moveElements Undefined st"

section \<open>The rendered element tree\<close>

text \<open>
  The page query: \<^verbatim>\<open>data.markdownRemark\<close> (title and html) and the nodes of
  \<^verbatim>\<open>data.allFile.edges\<close>; the image data of \<^verbatim>\<open>childImageSharp\<close> is opaque.
\<close>

record image =
  base :: string
  fluid :: string
  fixed :: string

record data =
  title :: string
  html :: string
  edges :: "image list"

datatype ref = CardRef nat | GalleryCardsRef | ModalParentRef | ModalRef

text \<open>
  The two event handlers of a card:
  \<^verbatim>\<open>e => setActiveCard(cardRefs[index].current)\<close> and
  \<^verbatim>\<open>e => (cardRefs[index].current.style = '')\<close>.
\<close>

datatype handler = SetActiveCard nat | ResetCardStyle nat

text \<open>Prop values. \<open>PIndex\<close> is a Number that is an array index.\<close>

datatype propval =
    PString string
  | PNumber jsnum
  | PIndex nat
  | PNull
  | PHtml string
  | PRef ref
  | PHandler handler
  | PImages "image list"
  | PFluid string

text \<open>
  A React element: type, props and children. The components \<^verbatim>\<open>GalleryModal\<close> and
  \<^verbatim>\<open>Img\<close> are imported; their elements stay unexpanded.
\<close>

datatype element = Element string "(string \<times> propval) list" "element list" | TextNode string

text \<open>\<^verbatim>\<open>activeCard.dataset.index\<close>.\<close>

definition datasetIndex :: "domnode \<Rightarrow> jsval" where
  "datasetIndex n = (case map_of (attributes n) ''data-index'' of None \<Rightarrow> Undefined | Some s \<Rightarrow> JString s)"

text \<open>\<^verbatim>\<open>activeCard && Number(activeCard.dataset.index)\<close>; an element is truthy.\<close>

definition activeCardIndex :: "domnode option \<Rightarrow> propval" where
  "activeCardIndex ac = (case ac of None \<Rightarrow> PNull | Some c \<Rightarrow> PNumber (Number (datasetIndex c)))"

text \<open>
  One element of \<^verbatim>\<open>images.map((image, index) => ...)\<close>: the card, and the container
  around it.
\<close>

definition cardElement :: "nat \<Rightarrow> image \<Rightarrow> element" where
  "cardElement index img =
     Element ''div''
       [(''className'', PString ''gallery__card observable''),
        (''data-index'', PIndex index),
        (''data-node-base'', PString (base img)),
        (''data-observer-root-margin'', PString ''0px 0px 25%''),
        (''onClick'', PHandler (SetActiveCard index)),
        (''onMouseDown'', PHandler (ResetCardStyle index)),
        (''ref'', PRef (CardRef index))]
       [Element ''Img''
          [(''alt'', PString (takeWhile (\<lambda>c. c \<noteq> CHR ''.'') (base img))),
           (''className'', PString ''h-full w-full''),
           (''fluid'', PFluid (fluid img))]
          []]"

definition galleryCard :: "nat \<Rightarrow> image \<Rightarrow> element" where
  "galleryCard index img =
     Element ''div'' [(''className'', PString ''gallery__card-container''), (''key'', PIndex index)]
       [cardElement index img]"

text \<open>
  The \<^verbatim>\<open>return\<close> of the component, with the constants and the ref of the cards'
  parent that the two files name differently as parameters.
\<close>

definition renderWith :: "real \<Rightarrow> real \<Rightarrow> real \<Rightarrow> ref \<Rightarrow> data \<Rightarrow> page \<Rightarrow> element" where
  "renderWith cs mh mw parent d st =
     Element ''section'' [(''className'', PString ''gallery'')]
       [Element ''div'' []
          [Element ''h1'' [] [TextNode (title d)],
           Element ''div'' [(''dangerouslySetInnerHTML'', PHtml (html d))] []],
        Element ''div'' [(''className'', PString ''gallery__cards''), (''ref'', PRef parent)]
          (Element ''GalleryModal''
             [(''activeCardIndex'', activeCardIndex (activeCard st)),
              (''cardSize'', PNumber (Finite cs)),
              (''height'', PNumber (Finite mh)),
              (''images'', PImages (edges d)),
              (''ref'', PRef ModalRef),
              (''width'', PNumber (Finite mw))]
             []
           # map (\<lambda>(index, img). galleryCard index img) (enumerate 0 (edges d)))]"

definition render :: "data \<Rightarrow> page \<Rightarrow> element" where
  "render = renderWith cardSize modalHeight modalWidth GalleryCardsRef"

definition render_p0 :: "data \<Rightarrow> page \<Rightarrow> element" where
  "render_p0 = renderWith cardSize_p0 modalHeight_p0 modalWidth_p0 ModalParentRef"

subsection \<open>Reading the tree\<close>

fun splitSpaces :: "string \<Rightarrow> string \<Rightarrow> string list" where
  "splitSpaces acc [] = (if acc = [] then [] else [acc])"
| "splitSpaces acc (c # cs) =
     (if c = CHR '' '' then (if acc = [] then splitSpaces [] cs else acc # splitSpaces [] cs)
      else splitSpaces (acc @ [c]) cs)"

definition propOf :: "string \<Rightarrow> element \<Rightarrow> propval option" where
  "propOf name el = (case el of Element tag props kids \<Rightarrow> map_of props name | TextNode t \<Rightarrow> None)"

definition childrenOf :: "element \<Rightarrow> element list" where
  "childrenOf el = (case el of Element tag props kids \<Rightarrow> kids | TextNode t \<Rightarrow> [])"

definition hasClass :: "string \<Rightarrow> element \<Rightarrow> bool" where
  "hasClass c el =
     (case propOf ''className'' el of Some (PString s) \<Rightarrow> c \<in> set (splitSpaces [] s) | _ \<Rightarrow> False)"

text \<open>The elements of a tree that carry a class, in document order.\<close>

fun selectByClass :: "string \<Rightarrow> element \<Rightarrow> element list" where
  "selectByClass c (TextNode t) = []"
| "selectByClass c (Element tag props kids) =
     (if hasClass c (Element tag props kids) then [Element tag props kids] else [])
     @ concat (map (selectByClass c) kids)"

text \<open>The elements of a given type, in document order.\<close>

fun selectByType :: "string \<Rightarrow> element \<Rightarrow> element list" where
  "selectByType ty (TextNode t) = []"
| "selectByType ty (Element tag props kids) =
     (if tag = ty then [Element tag props kids] else [])
     @ concat (map (selectByType ty) kids)"

subsection \<open>Commit and click\<close>

text \<open>
  What React DOM does with a rendered card: a \<^verbatim>\<open>data-*\<close> prop becomes the attribute
  of that name, a Number written as its string; the class list is that of
  \<^verbatim>\<open>className\<close>; the layout box is the browser's (\<open>box\<close>).
\<close>

definition attributeOf :: "propval \<Rightarrow> string option" where
  "attributeOf p = (case p of PString s \<Rightarrow> Some s | PIndex n \<Rightarrow> Some (decimal n) | _ \<Rightarrow> None)"

definition domAttributes :: "(string \<times> propval) list \<Rightarrow> (string \<times> string) list" where
  "domAttributes props =
     List.map_filter
       (\<lambda>(k, p). if take 5 k = ''data-'' then map_option (Pair k) (attributeOf p) else None) props"

definition createNode :: "domnode \<Rightarrow> element \<Rightarrow> domnode" where
  "createNode box el =
     (case el of
        Element tag props kids \<Rightarrow>
          box\<lparr>classList := (case map_of props ''className'' of Some (PString s) \<Rightarrow> splitSpaces [] s | _ \<Rightarrow> []),
              styleTransform := [], styleRest := [],
              attributes := domAttributes props\<rparr>
      | TextNode t \<Rightarrow> box)"

text \<open>
  After the commit the \<open>i\<close>-th card ref points to the node of the \<open>i\<close>-th
  \<^verbatim>\<open>.gallery__card\<close> element, laid out as \<open>layout i\<close>.
\<close>

definition commit :: "(nat \<Rightarrow> domnode) \<Rightarrow> element \<Rightarrow> page \<Rightarrow> page" where
  "commit layout tree st =
     (let nodes = map (\<lambda>(i, el). createNode (layout i) el) (enumerate 0 (selectByClass ''gallery__card'' tree))
      in st\<lparr>cardRefs := map Some nodes, cards := nodes\<rparr>)"

text \<open>A handler that reads \<^verbatim>\<open>.current\<close> of a missing ref, or the style of \<^verbatim>\<open>null\<close>, throws.\<close>

fun runHandler :: "handler \<Rightarrow> page \<Rightarrow> page option" where
  "runHandler (SetActiveCard i) st =
     (if i < length (cardRefs st) then Some (st\<lparr>activeCard := cardRefs st ! i\<rparr>) else None)"
| "runHandler (ResetCardStyle i) st =
     (if i < length (cardRefs st)
      then (case cardRefs st ! i of
              None \<Rightarrow> None
            | Some n \<Rightarrow> Some (st\<lparr>cardRefs := (cardRefs st)[i := Some (clearStyle n)]\<rparr>))
      else None)"

text \<open>A click on the \<open>i\<close>-th card of a rendered tree runs its \<^verbatim>\<open>onClick\<close>.\<close>

definition click :: "nat \<Rightarrow> element \<Rightarrow> page \<Rightarrow> page option" where
  "click i tree st =
     (let cs = selectByClass ''gallery__card'' tree
      in if i < length cs
         then (case propOf ''onClick'' (cs ! i) of Some (PHandler h) \<Rightarrow> runHandler h st | _ \<Rightarrow> None)
         else None)"

section \<open>Observations and sample states\<close>


text \<open>The timers that a step from \<open>before\<close> to \<open>after\<close> has added to the queue.\<close>

definition scheduled :: "page \<Rightarrow> page \<Rightarrow> (jsnum \<times> task) list" where
  "scheduled before after = drop (length (timers before)) (timers after)"

text \<open>The \<^verbatim>\<open>activeCardIndex\<close> that each \<^verbatim>\<open>GalleryModal\<close> of a tree receives.\<close>

definition modalActiveCardIndex :: "element \<Rightarrow> propval option list" where
  "modalActiveCardIndex tree = map (propOf ''activeCardIndex'') (selectByType ''GalleryModal'' tree)"

definition imageA :: image where
  "imageA = \<lparr>base = ''alpha.jpg'', fluid = ''fluid-a'', fixed = ''fixed-a''\<rparr>"

definition imageB :: image where
  "imageB = \<lparr>base = ''beta.v2.jpg'', fluid = ''fluid-b'', fixed = ''fixed-b''\<rparr>"

definition dataA :: data where
  "dataA = \<lparr>title = ''Gallery'', html = ''<p>Two pictures</p>'', edges = [imageA, imageB]\<rparr>"

definition cardA :: domnode where
  "cardA = \<lparr>offsetLeft = 40, offsetTop = 120, offsetWidth = 275, offsetHeight = 275,
            classList = [''gallery__card'', ''observable'', ''is-visible''],
            styleTransform = [Scale (Finite 1.025)], styleRest = [],
            attributes = [(''data-index'', ''0''), (''data-node-base'', ''alpha.jpg'')]\<rparr>"

definition cardB :: domnode where
  "cardB = \<lparr>offsetLeft = 355, offsetTop = 120, offsetWidth = 275, offsetHeight = 275,
            classList = [''gallery__card'', ''observable''],
            styleTransform = [], styleRest = [],
            attributes = [(''data-index'', ''1''), (''data-node-base'', ''beta.v2.jpg'')]\<rparr>"

definition modalNode :: domnode where
  "modalNode = \<lparr>offsetLeft = 0, offsetTop = 0, offsetWidth = 931, offsetHeight = 621,
                classList = [''gallery__modal'', ''is-active''],
                styleTransform = [], styleRest = [], attributes = []\<rparr>"

definition containerNode :: domnode where
  "containerNode = \<lparr>offsetLeft = 0, offsetTop = 0, offsetWidth = 931, offsetHeight = 621,
                    classList = [], styleTransform = [], styleRest = [], attributes = []\<rparr>"

definition pageA :: page where
  "pageA = \<lparr>activeCard = Some cardA, cardRefs = [Some cardA, Some cardB],
            modal = modalNode, modalImageContainer = containerNode,
            cards = [cardA, cardB], timers = []\<rparr>"

definition pageNone :: page where
  "pageNone = pageA\<lparr>activeCard := None\<rparr>"

definition envA :: env where
  "envA = \<lparr>bodyOffsetWidth = 1280, bodyOffsetHeight = 2400, parentTop = 96, scrollY = 0\<rparr>"


definition entriesA :: "entry list" where
  "entriesA = [\<lparr>isIntersecting = True, target = 1\<rparr>, \<lparr>isIntersecting = False, target = 0\<rparr>]"

text \<open>Utilities that schedule nothing, to run the card effects on their own.\<close>

definition lazyLoadNothing :: "(entry list \<Rightarrow> page \<Rightarrow> page) \<Rightarrow> page \<Rightarrow> page" where
  "lazyLoadNothing cb st = st"

definition moveNothing :: "page \<Rightarrow> page" where
  "moveNothing st = st"

section \<open>Auxiliary facts\<close>

subsection \<open>The two loops\<close>

lemma displayCardsFrom_timers:
  "displayCardsFrom d k cs st =
     st\<lparr>timers := timers st @
        map (\<lambda>i. (jdiv (jmul (ofNatural i) d) (Finite 3.666), AddClass i ''is-visible''))
          [k..<k + length cs]\<rparr>"
proof (induction cs arbitrary: k st)
  case Nil
  then show ?case by simp
next
  case (Cons c cs)
  have "[k..<k + length (c # cs)] = k # [Suc k..<Suc k + length cs]"
    by (simp add: upt_rec)
  with Cons show ?case by (simp add: setTimeout_def)
qed

lemma observeEntries_timers:
  "observeEntries d es st =
     st\<lparr>timers := timers st @
        map (\<lambda>en. (jdiv d (Finite 3), AddClass (target en) ''has-entered''))
          (filter isIntersecting es)\<rparr>"
  by (induction es arbitrary: st) (simp_all add: setTimeout_def)

lemma scheduled_append: "scheduled st (st\<lparr>timers := timers st @ ts\<rparr>) = ts"
  by (simp add: scheduled_def)

subsection \<open>Firing class additions\<close>

lemma runTask_AddClass_keeps:
  "x \<in> set (classList (cards st ! n)) \<Longrightarrow> n < length (cards st) \<Longrightarrow>
   x \<in> set (classList (cards (runTask e (AddClass i c) st) ! n))"
  by (cases "n = i") (simp_all add: classListAdd_def)

lemma runAll_AddClass_other:
  "\<forall>en \<in> set es. target en \<noteq> n \<Longrightarrow>
   cards (runAll e (map (\<lambda>en. (t, AddClass (target en) c)) es) st) ! n = cards st ! n"
  by (induction es arbitrary: st) simp_all

lemma runAll_AddClass_keeps:
  "x \<in> set (classList (cards st ! n)) \<Longrightarrow> n < length (cards st) \<Longrightarrow>
   x \<in> set (classList (cards (runAll e (map (\<lambda>en. (t, AddClass (target en) c)) es) st) ! n))"
proof (induction es arbitrary: st)
  case Nil
  then show ?case by simp
next
  case (Cons en es)
  have "x \<in> set (classList (cards (runTask e (AddClass (target en) c) st) ! n))"
    using Cons.prems by (rule runTask_AddClass_keeps)
  moreover have "n < length (cards (runTask e (AddClass (target en) c) st))"
    using Cons.prems by simp
  ultimately show ?case
    using Cons.IH [of "runTask e (AddClass (target en) c) st"] by simp
qed

lemma runAll_AddClass_adds:
  "en \<in> set es \<Longrightarrow> target en < length (cards st) \<Longrightarrow>
   c \<in> set (classList (cards (runAll e (map (\<lambda>en. (t, AddClass (target en) c)) es) st) ! target en))"
proof (induction es arbitrary: st)
  case Nil
  then show ?case by simp
next
  case (Cons a es)
  show ?case
  proof (cases "en = a")
    case True
    have "c \<in> set (classList (cards (runTask e (AddClass (target a) c) st) ! target a))"
      using Cons.prems True by (simp add: classListAdd_def)
    moreover have "target a < length (cards (runTask e (AddClass (target a) c) st))"
      using Cons.prems True by simp
    ultimately show ?thesis
      using runAll_AddClass_keeps [of c "runTask e (AddClass (target a) c) st" "target a" e t c es] True
      by simp
  next
    case False
    with Cons.prems have "en \<in> set es" by simp
    moreover have "target en < length (cards (runTask e (AddClass (target a) c) st))"
      using Cons.prems by simp
    ultimately show ?thesis
      using Cons.IH [of "runTask e (AddClass (target a) c) st"] by simp
  qed
qed

lemma observeEntries_fired_other:
  assumes "\<forall>en \<in> set es. isIntersecting en \<longrightarrow> target en \<noteq> n"
  shows "cards (runAll e (scheduled st (observeEntries d es st)) (observeEntries d es st)) ! n
           = cards st ! n"
proof -
  have "\<forall>en \<in> set (filter isIntersecting es). target en \<noteq> n"
    using assms by simp
  then show ?thesis
    unfolding observeEntries_timers scheduled_append
    by (simp add: runAll_AddClass_other)
qed

lemma observeEntries_fired_target:
  assumes "en \<in> set es" and "isIntersecting en" and "target en < length (cards st)"
  shows "''has-entered'' \<in> set (classList
           (cards (runAll e (scheduled st (observeEntries d es st)) (observeEntries d es st)) ! target en))"
proof -
  have "en \<in> set (filter isIntersecting es)"
    using assms by simp
  then show ?thesis
    unfolding observeEntries_timers scheduled_append
    using assms(3) by (simp add: runAll_AddClass_adds)
qed

subsection \<open>Decimal digits\<close>

lemma digitVal_digitChar: "k < 10 \<Longrightarrow> digitVal 10 (digitChar k) = Some k"
  by (simp add: digitVal_def hexVal_def digitChar_def Let_def)

lemma isDigit_digitChar: "k < 10 \<Longrightarrow> isDigit (digitChar k)"
  by (simp add: isDigit_def digitChar_def)

lemma digitsVal_snoc:
  "digitsVal r (xs @ [c]) = r * digitsVal r xs + (case digitVal r c of None \<Rightarrow> 0 | Some v \<Rightarrow> v)"
  by (simp add: digitsVal_def)

lemma decimal_nonempty: "decimal n \<noteq> []"
  by (subst decimal.simps) simp

lemma decimal_digits: "list_all isDigit (decimal n)"
  by (induction n rule: decimal.induct) (subst decimal.simps, simp add: isDigit_digitChar)

lemma digitsVal_decimal: "digitsVal 10 (decimal n) = n"
proof (induction n rule: decimal.induct)
  case (1 n)
  show ?case
  proof (cases "n < 10")
    case True
    then show ?thesis
      by (subst decimal.simps) (simp add: digitsVal_def digitVal_digitChar)
  next
    case False
    with 1 show ?thesis
      by (subst decimal.simps) (simp add: digitsVal_snoc digitVal_digitChar)
  qed
qed

lemma digit_not_white: "isDigit c \<Longrightarrow> \<not> isWhite c"
  by (auto simp: isDigit_def isWhite_def)

lemma dropWhile_white_digits: "list_all isDigit s \<Longrightarrow> dropWhile isWhite s = s"
  by (cases s) (simp_all add: digit_not_white)

lemma trim_digits: "list_all isDigit s \<Longrightarrow> trim s = s"
  by (simp add: trim_def dropWhile_white_digits)

lemma nonDecimal_digits: "list_all isDigit s \<Longrightarrow> nonDecimalIntegerLiteral s = None"
  by (auto simp: nonDecimalIntegerLiteral_def isDigit_def Let_def split: list.splits)

lemma unsignedDecimal_digits:
  assumes digits: "list_all isDigit s" and ne: "s \<noteq> []"
  shows "unsignedDecimal s = Some (ofNatural (digitsVal 10 s))"
proof -
  have tw: "takeWhile isDigit s = s" using digits by (simp add: list_all_iff)
  have dw: "dropWhile isDigit s = []" using digits by (simp add: list_all_iff)
  have ninf: "s \<noteq> ''Infinity''" using digits by (auto simp: isDigit_def)
  show ?thesis using ne
    by (simp add: unsignedDecimal_def ninf tw dw Let_def exponentPart_def pow10_def digitsVal_def)
qed

lemma strDecimal_digits:
  "list_all isDigit s \<Longrightarrow> s \<noteq> [] \<Longrightarrow> strDecimalLiteral s = Some (ofNatural (digitsVal 10 s))"
  using unsignedDecimal_digits[of s]
  by (cases s) (auto simp: strDecimalLiteral_def isDigit_def)

lemma StringToNumber_decimal: "StringToNumber (decimal n) = ofNatural n"
  using decimal_digits[of n] decimal_nonempty[of n]
  by (simp add: StringToNumber_def trim_digits nonDecimal_digits strDecimal_digits digitsVal_decimal)

subsection \<open>Selecting from the rendered tree\<close>

lemma concat_singletons: "(\<And>x. x \<in> set xs \<Longrightarrow> f x = [g x]) \<Longrightarrow> concat (map f xs) = map g xs"
  by (induction xs) simp_all

lemma concat_empties: "(\<And>x. x \<in> set xs \<Longrightarrow> f x = []) \<Longrightarrow> concat (map f xs) = []"
  by (induction xs) simp_all

lemma select_container:
  "selectByClass ''gallery__card-container'' (galleryCard i img) = [galleryCard i img]"
  by (simp add: galleryCard_def cardElement_def hasClass_def propOf_def)

lemma select_card: "selectByClass ''gallery__card'' (galleryCard i img) = [cardElement i img]"
  by (simp add: galleryCard_def cardElement_def hasClass_def propOf_def)

lemma select_modal_in_card: "selectByType ''GalleryModal'' (galleryCard i img) = []"
  by (simp add: galleryCard_def cardElement_def)

lemma containers_renderWith:
  "selectByClass ''gallery__card-container'' (renderWith cs mh mw par d st)
     = map (\<lambda>(index, img). galleryCard index img) (enumerate 0 (edges d))"
  by (simp add: renderWith_def hasClass_def propOf_def select_container
      concat_singletons[where g = "\<lambda>(index, img). galleryCard index img"] split_def comp_def)

lemma cards_renderWith:
  "selectByClass ''gallery__card'' (renderWith cs mh mw par d st)
     = map (\<lambda>(index, img). cardElement index img) (enumerate 0 (edges d))"
  by (simp add: renderWith_def hasClass_def propOf_def select_card
      concat_singletons[where g = "\<lambda>(index, img). cardElement index img"] split_def comp_def)

lemma modal_renderWith:
  "modalActiveCardIndex (renderWith cs mh mw par d st) = [Some (activeCardIndex (activeCard st))]"
  by (simp add: modalActiveCardIndex_def renderWith_def select_modal_in_card concat_empties
      split_def comp_def propOf_def)

lemma datasetIndex_created:
  "datasetIndex (createNode box (cardElement i img)) = JString (decimal i)"
  by (simp add: datasetIndex_def createNode_def cardElement_def domAttributes_def
      List.map_filter_simps attributeOf_def)

lemma click_sets_active:
  assumes "i < length (edges d)"
  shows "click i (renderWith cs mh mw par d st) (commit layout (renderWith cs mh mw par d st) st)
      = Some ((commit layout (renderWith cs mh mw par d st) st)
               \<lparr>activeCard := Some (createNode (layout i) (cardElement i (edges d ! i)))\<rparr>)"
  using assms
  by (simp add: click_def commit_def cards_renderWith Let_def nth_enumerate_eq cardElement_def propOf_def)

lemma click_then_render:
  assumes "i < length (edges d)"
  shows "\<exists>st'. click i (renderWith cs mh mw par d st) (commit layout (renderWith cs mh mw par d st) st)
            = Some st'
     \<and> modalActiveCardIndex (renderWith cs mh mw par d st') = [Some (PNumber (ofNatural i))]"
  using assms
  by (simp add: click_sets_active modal_renderWith activeCardIndex_def datasetIndex_created
      Number_def StringToNumber_decimal)

section \<open>The modal choreography\<close>





text \<open>
  C3. For every clicked card the effect schedules one callback at the timeout
  \<^verbatim>\<open>delay * 2\<close>, which is 600 with the delay of 300, and when that callback runs it
  sets the scale factors of the modal and of its image container to exactly 1 on both
  axes, whatever the document and the modal look like at that moment.
\<close>

theorem modal_expands_to_full_size:
  "(activeCard st = Some c \<longrightarrow>
      scheduled st (modalEffect st) = [(jmul (Finite delay) (Finite 2), ExpandModal modalWidth modalHeight)]
      \<and> scheduled st (modalEffect_p0 st) = [(jmul (Finite delay_p0) (Finite 2), ExpandModal_p0)])
   \<and> jmul (Finite delay) (Finite 2) = Finite 600
   \<and> jmul (Finite delay_p0) (Finite 2) = Finite 600
   \<and> scaleFactors (styleTransform (modal (runTask e (ExpandModal w h) s))) = (Finite 1, Finite 1)
   \<and> scaleFactors (styleTransform (modalImageContainer (runTask e (ExpandModal w h) s))) = (Finite 1, Finite 1)
   \<and> scaleFactors (styleTransform (modal (runTask e ExpandModal_p0 s))) = (Finite 1, Finite 1)
   \<and> scaleFactors (styleTransform (modalImageContainer (runTask e ExpandModal_p0 s))) = (Finite 1, Finite 1)"
  by (simp add: scheduled_def modalEffect_def modalEffectWith_def modalEffect_p0_def
      animateModal_p0_def Let_def setTimeout_def delay_def delay_p0_def)

theorem modal_expands_to_full_size_witness:
  "activeCard pageA = Some cardA
   \<and> scheduled pageA (modalEffect pageA) = [(Finite 600, ExpandModal 931 620.666)]
   \<and> scheduled pageA (modalEffect_p0 pageA) = [(Finite 600, ExpandModal_p0)]
   \<and> styleTransform (modal (runTask envA (ExpandModal 931 620.666) (modalEffect pageA)))
       = [Translate (Finite 175) (Finite 841.667), ScaleX (Finite 1), ScaleY (Finite 1)]
   \<and> styleTransform (modalImageContainer (runTask envA (ExpandModal 931 620.666) (modalEffect pageA)))
       = [ScaleX (Finite 1), ScaleY (Finite 1)]
   \<and> styleTransform (modal (runTask envA ExpandModal_p0 (modalEffect_p0 pageA)))
       = [Translate (Finite 175) (Finite 841.5), Scale (Finite 1)]
   \<and> styleTransform (modalImageContainer (runTask envA ExpandModal_p0 (modalEffect_p0 pageA)))
       = [Scale (Finite 1)]"
  using modal_expands_to_full_size [where st = pageA and c = cardA and e = envA and w = 931
      and h = "620.666" and s = "modalEffect pageA"]
  by (simp add: scheduled_def pageA_def cardA_def modalNode_def envA_def modalEffect_def
      modalEffectWith_def modalEffect_p0_def animateModal_p0_def Let_def setTimeout_def jsub_def
      delay_def delay_p0_def modalWidth_def modalHeight_def cardSize_def)

text \<open>
  C9. With no active card the modal effect returns at once: the state is the one it
  started from, so the transform of the modal, the transform of its image container, its
  class list and the timer queue are unchanged.
\<close>

theorem modal_effect_without_active_card:
  "activeCard st = None \<longrightarrow>
     modalEffect st = st \<and> modalEffect_p0 st = st \<and> animateModal_p0 dl None st = st
     \<and> styleTransform (modal (modalEffect st)) = styleTransform (modal st)
     \<and> styleTransform (modalImageContainer (modalEffect st)) = styleTransform (modalImageContainer st)
     \<and> classList (modal (modalEffect st)) = classList (modal st)
     \<and> styleTransform (modal (modalEffect_p0 st)) = styleTransform (modal st)
     \<and> styleTransform (modalImageContainer (modalEffect_p0 st)) = styleTransform (modalImageContainer st)
     \<and> classList (modal (modalEffect_p0 st)) = classList (modal st)"
  by (simp add: modalEffect_def modalEffectWith_def modalEffect_p0_def animateModal_p0_def)

theorem modal_effect_without_active_card_witness:
  "activeCard pageNone = None
   \<and> modalEffect pageNone = pageNone \<and> modalEffect_p0 pageNone = pageNone
   \<and> classList (modal (modalEffect pageNone)) = [''gallery__modal'', ''is-active'']
   \<and> timers (modalEffect pageNone) = []"
  using modal_effect_without_active_card [where st = pageNone and dl = Undefined]
  by (simp add: pageNone_def pageA_def modalNode_def)

section \<open>The staggered reveal\<close>

text \<open>
  In galleries.js the reveal of card \<open>i\<close> is scheduled at \<open>i * 300 / 3.666\<close>, and these
  timeouts increase strictly with the index.
\<close>

lemma displayGalleryCards_scheduled:
  "scheduled st (displayGalleryCards st) =
     map (\<lambda>i. (Finite (real i * 300 / 3.666), AddClass i ''is-visible'')) [0..<length (cards st)]"
  by (simp add: displayGalleryCards_def displayCardsFrom_timers scheduled_append delay_def)

lemma displayGalleryCards_staggered:
  assumes "i < j" and "j < length (cards st)"
  shows "jless (fst (scheduled st (displayGalleryCards st) ! i))
               (fst (scheduled st (displayGalleryCards st) ! j))"
  using assms by (simp add: displayGalleryCards_scheduled)

text \<open>So does \<^verbatim>\<open>displayGalleryCards\<close> of part_000 when it is given a positive Number.\<close>

lemma displayGalleryCards_p0_staggered:
  assumes "0 < dl" and "i < j" and "j < length (cards st)"
  shows "jless (fst (scheduled st (displayGalleryCards_p0 (JNumber (Finite dl)) st) ! i))
               (fst (scheduled st (displayGalleryCards_p0 (JNumber (Finite dl)) st) ! j))"
  using assms by (simp add: displayGalleryCards_p0_def displayCardsFrom_timers scheduled_append)

text \<open>
  The effect of part_000 passes no delay, and then every timeout it schedules for a
  reveal is \<^verbatim>\<open>NaN\<close>, for any number of cards.
\<close>

lemma cardsEffect_p0_scheduled:
  "scheduled st (cardsEffect_p0 lazyLoadNothing moveNothing st) =
     map (\<lambda>i. (NaN, AddClass i ''is-visible'')) [0..<length (cards st)]"
  by (simp add: cardsEffect_p0_def animateCards_p0_def displayGalleryCards_p0_def
      displayCardsFrom_timers scheduled_append lazyLoadNothing_def moveNothing_def)

text \<open>
  C4. The reveal of card \<open>i\<close> is scheduled at \<^verbatim>\<open>(i * delay) / 3.666\<close>, strictly
  increasing in \<open>i\<close>. On a page with two cards the effect of galleries.js schedules the
  reveals at 0 and at \<open>300 / 3.666\<close>; the effect of part_000 schedules both at
  \<^verbatim>\<open>NaN\<close>, and the timeout of card 0 is not smaller than that of card 1.
\<close>

theorem reveal_timeouts_on_two_cards:
  "map fst (scheduled pageA (cardsEffect lazyLoadNothing moveNothing pageA))
     = [Finite 0, Finite (300 / 3.666)]
   \<and> jless (fst (scheduled pageA (cardsEffect lazyLoadNothing moveNothing pageA) ! 0))
            (fst (scheduled pageA (cardsEffect lazyLoadNothing moveNothing pageA) ! 1))
   \<and> map fst (scheduled pageA (cardsEffect_p0 lazyLoadNothing moveNothing pageA)) = [NaN, NaN]
   \<and> \<not> jless (fst (scheduled pageA (cardsEffect_p0 lazyLoadNothing moveNothing pageA) ! 0))
              (fst (scheduled pageA (cardsEffect_p0 lazyLoadNothing moveNothing pageA) ! 1))"
  by (simp add: cardsEffect_def cardsEffect_p0_def animateCards_p0_def displayGalleryCards_def
      displayGalleryCards_p0_def lazyLoadNothing_def moveNothing_def scheduled_def pageA_def
      setTimeout_def delay_def)

section \<open>Lazy loading\<close>

text \<open>
  C5. For every list of entries the observer callback changes nothing but the timer
  queue, to which it adds one callback per intersecting entry, in the order of the
  entries, at the timeout \<^verbatim>\<open>delay / 3\<close>, adding \<^verbatim>\<open>has-entered\<close> to that entry's
  target; an entry that is not intersecting adds none. So a callback for an element is
  scheduled exactly when an intersecting entry has it as its target, and the cards
  themselves are as they were when the callback returns. Once the scheduled callbacks
  have fired, the target of every intersecting entry has the class, and a card that is
  the target of no intersecting entry is still unchanged.
\<close>

theorem observer_schedules_intersecting_entries:
  "observerCallback entries st =
     st\<lparr>timers := timers st @
        map (\<lambda>en. (jdiv (Finite delay) (Finite 3), AddClass (target en) ''has-entered''))
          (filter isIntersecting entries)\<rparr>
   \<and> setObserverCallback_p0 dl entries st =
     st\<lparr>timers := timers st @
        map (\<lambda>en. (jdiv (ToNumber dl) (Finite 3), AddClass (target en) ''has-entered''))
          (filter isIntersecting entries)\<rparr>
   \<and> ((\<exists>t. (t, AddClass n ''has-entered'') \<in> set (scheduled st (observerCallback entries st)))
        = (\<exists>en \<in> set entries. isIntersecting en \<and> target en = n))
   \<and> ((\<exists>t. (t, AddClass n ''has-entered'') \<in> set (scheduled st (setObserverCallback_p0 dl entries st)))
        = (\<exists>en \<in> set entries. isIntersecting en \<and> target en = n))
   \<and> cards (observerCallback entries st) = cards st
   \<and> cards (setObserverCallback_p0 dl entries st) = cards st
   \<and> jdiv (Finite delay) (Finite 3) = Finite 100
   \<and> ((\<forall>en \<in> set entries. isIntersecting en \<longrightarrow> target en \<noteq> n) \<longrightarrow>
        cards (runAll e (scheduled st (observerCallback entries st)) (observerCallback entries st)) ! n
          = cards st ! n
        \<and> cards (runAll e (scheduled st (setObserverCallback_p0 dl entries st))
                   (setObserverCallback_p0 dl entries st)) ! n
          = cards st ! n)
   \<and> (en \<in> set entries \<and> isIntersecting en \<and> target en < length (cards st) \<longrightarrow>
        ''has-entered'' \<in> set (classList
           (cards (runAll e (scheduled st (observerCallback entries st)) (observerCallback entries st))
              ! target en))
        \<and> ''has-entered'' \<in> set (classList
           (cards (runAll e (scheduled st (setObserverCallback_p0 dl entries st))
                     (setObserverCallback_p0 dl entries st))
              ! target en)))"
proof -
  have g: "observerCallback entries st =
     st\<lparr>timers := timers st @
        map (\<lambda>en. (jdiv (Finite delay) (Finite 3), AddClass (target en) ''has-entered''))
          (filter isIntersecting entries)\<rparr>"
    by (simp add: observerCallback_def observeEntries_timers)
  have p: "setObserverCallback_p0 dl entries st =
     st\<lparr>timers := timers st @
        map (\<lambda>en. (jdiv (ToNumber dl) (Finite 3), AddClass (target en) ''has-entered''))
          (filter isIntersecting entries)\<rparr>"
    by (simp add: setObserverCallback_p0_def observeEntries_timers)
  have gi: "(\<exists>t. (t, AddClass n ''has-entered'') \<in> set (scheduled st (observerCallback entries st)))
        = (\<exists>en \<in> set entries. isIntersecting en \<and> target en = n)"
    unfolding g scheduled_append by auto
  have pi: "(\<exists>t. (t, AddClass n ''has-entered'') \<in> set (scheduled st (setObserverCallback_p0 dl entries st)))
        = (\<exists>en \<in> set entries. isIntersecting en \<and> target en = n)"
    unfolding p scheduled_append by auto
  have gc: "cards (observerCallback entries st) = cards st"
    unfolding g by simp
  have pc: "cards (setObserverCallback_p0 dl entries st) = cards st"
    unfolding p by simp
  have d: "jdiv (Finite delay) (Finite 3) = Finite 100"
    by (simp add: delay_def)
  have other: "(\<forall>en \<in> set entries. isIntersecting en \<longrightarrow> target en \<noteq> n) \<longrightarrow>
        cards (runAll e (scheduled st (observerCallback entries st)) (observerCallback entries st)) ! n
          = cards st ! n
        \<and> cards (runAll e (scheduled st (setObserverCallback_p0 dl entries st))
                   (setObserverCallback_p0 dl entries st)) ! n
          = cards st ! n"
    unfolding observerCallback_def setObserverCallback_p0_def
    by (simp add: observeEntries_fired_other)
  have entered: "en \<in> set entries \<and> isIntersecting en \<and> target en < length (cards st) \<longrightarrow>
        ''has-entered'' \<in> set (classList
           (cards (runAll e (scheduled st (observerCallback entries st)) (observerCallback entries st))
              ! target en))
        \<and> ''has-entered'' \<in> set (classList
           (cards (runAll e (scheduled st (setObserverCallback_p0 dl entries st))
                     (setObserverCallback_p0 dl entries st))
              ! target en))"
    unfolding observerCallback_def setObserverCallback_p0_def
    by (simp add: observeEntries_fired_target)
  from g p gi pi gc pc d other entered show ?thesis by blast
qed

theorem observer_schedules_intersecting_entries_witness:
  "(\<exists>en \<in> set entriesA. isIntersecting en \<and> target en = 1)
   \<and> \<not> (\<exists>en \<in> set entriesA. isIntersecting en \<and> target en = 0)
   \<and> scheduled pageA (observerCallback entriesA pageA) = [(Finite 100, AddClass 1 ''has-entered'')]
   \<and> scheduled pageA (setObserverCallback_p0 (JNumber (Finite 300)) entriesA pageA)
       = [(Finite 100, AddClass 1 ''has-entered'')]
   \<and> scheduled pageA (setObserverCallback_p0 Undefined entriesA pageA)
       = [(NaN, AddClass 1 ''has-entered'')]
   \<and> cards (observerCallback entriesA pageA) = [cardA, cardB]
   \<and> cards (runAll envA (scheduled pageA (observerCallback entriesA pageA))
              (observerCallback entriesA pageA))
       = [cardA, cardB\<lparr>classList := [''gallery__card'', ''observable'', ''has-entered'']\<rparr>]"
  using observer_schedules_intersecting_entries [where entries = entriesA and st = pageA
      and dl = "JNumber (Finite 300)" and n = 0 and e = envA
      and en = "\<lparr>isIntersecting = True, target = 1\<rparr>"]
    observer_schedules_intersecting_entries [where entries = entriesA and st = pageA
      and dl = Undefined and n = 1 and e = envA
      and en = "\<lparr>isIntersecting = True, target = 1\<rparr>"]
  by (simp add: scheduled_def entriesA_def pageA_def cardA_def cardB_def classListAdd_def delay_def)

section \<open>The rendered grid\<close>

text \<open>
  C6. The rendered tree has one \<^verbatim>\<open>.gallery__card-container\<close> element per image of
  \<^verbatim>\<open>data.allFile.edges\<close>, in the order of the list: the \<open>i\<close>-th container holds the
  \<open>i\<close>-th \<^verbatim>\<open>.gallery__card\<close> element and nothing else, and that card carries
  \<^verbatim>\<open>data-index\<close> \<open>i\<close> and \<^verbatim>\<open>data-node-base\<close> the \<^verbatim>\<open>node.base\<close> of the \<open>i\<close>-th image.
  (The html of the markdown is a prop of the tree, not a part of it.)
\<close>

theorem one_card_per_image_in_order:
  "length (selectByClass ''gallery__card-container'' (render d st)) = length (edges d)
   \<and> length (selectByClass ''gallery__card-container'' (render_p0 d st)) = length (edges d)
   \<and> (\<forall>i<length (edges d).
        childrenOf (selectByClass ''gallery__card-container'' (render d st) ! i)
          = [selectByClass ''gallery__card'' (render d st) ! i]
        \<and> propOf ''data-index'' (selectByClass ''gallery__card'' (render d st) ! i) = Some (PIndex i)
        \<and> propOf ''data-node-base'' (selectByClass ''gallery__card'' (render d st) ! i)
            = Some (PString (base (edges d ! i)))
        \<and> childrenOf (selectByClass ''gallery__card-container'' (render_p0 d st) ! i)
          = [selectByClass ''gallery__card'' (render_p0 d st) ! i]
        \<and> propOf ''data-index'' (selectByClass ''gallery__card'' (render_p0 d st) ! i) = Some (PIndex i)
        \<and> propOf ''data-node-base'' (selectByClass ''gallery__card'' (render_p0 d st) ! i)
            = Some (PString (base (edges d ! i))))"
  by (simp add: render_def render_p0_def containers_renderWith cards_renderWith nth_enumerate_eq
      galleryCard_def childrenOf_def cardElement_def propOf_def)

theorem one_card_per_image_in_order_witness:
  "length (edges dataA) = 2
   \<and> selectByClass ''gallery__card-container'' (render dataA pageA)
       = [galleryCard 0 imageA, galleryCard 1 imageB]
   \<and> (1::nat) < length (edges dataA)
   \<and> propOf ''data-index'' (selectByClass ''gallery__card'' (render dataA pageA) ! 1) = Some (PIndex 1)
   \<and> propOf ''data-node-base'' (selectByClass ''gallery__card'' (render dataA pageA) ! 1)
       = Some (PString ''beta.v2.jpg'')
   \<and> propOf ''data-index'' (selectByClass ''gallery__card'' (render_p0 dataA pageA) ! 1) = Some (PIndex 1)
   \<and> propOf ''alt'' (hd (childrenOf (selectByClass ''gallery__card'' (render dataA pageA) ! 1)))
       = Some (PString ''beta'')"
  using one_card_per_image_in_order [where d = dataA and st = pageA]
  by (simp add: render_def render_p0_def containers_renderWith cards_renderWith dataA_def imageA_def
      imageB_def enumerate_simps cardElement_def propOf_def childrenOf_def)



section \<open>The two versions side by side\<close>




section \<open>The active card index\<close>

text \<open>
  C10. For every card index \<open>i\<close>, once the tree is committed a click on card \<open>i\<close>
  succeeds, and in the next render the \<^verbatim>\<open>GalleryModal\<close> receives
  \<^verbatim>\<open>activeCardIndex\<close> \<open>i\<close>: \<^verbatim>\<open>Number\<close> of the string that the commit stored in
  \<^verbatim>\<open>data-index\<close> is \<open>i\<close> again. With no active card it receives \<^verbatim>\<open>null\<close>.
\<close>

theorem active_card_index_round_trip:
  "(i < length (edges d) \<longrightarrow>
      (\<exists>st'. click i (render d st) (commit layout (render d st) st) = Some st'
         \<and> modalActiveCardIndex (render d st') = [Some (PNumber (ofNatural i))])
      \<and> (\<exists>st'. click i (render_p0 d st) (commit layout (render_p0 d st) st) = Some st'
         \<and> modalActiveCardIndex (render_p0 d st') = [Some (PNumber (ofNatural i))]))
   \<and> (activeCard st = None \<longrightarrow>
        modalActiveCardIndex (render d st) = [Some PNull]
        \<and> modalActiveCardIndex (render_p0 d st) = [Some PNull])
   \<and> attributeOf (PIndex i) = Some (decimal i)
   \<and> Number (JString (decimal i)) = ofNatural i"
proof (intro conjI impI)
  assume i: "i < length (edges d)"
  show "\<exists>st'. click i (render d st) (commit layout (render d st) st) = Some st'
         \<and> modalActiveCardIndex (render d st') = [Some (PNumber (ofNatural i))]"
    unfolding render_def by (rule click_then_render [OF i])
  show "\<exists>st'. click i (render_p0 d st) (commit layout (render_p0 d st) st) = Some st'
         \<and> modalActiveCardIndex (render_p0 d st') = [Some (PNumber (ofNatural i))]"
    unfolding render_p0_def by (rule click_then_render [OF i])
next
  assume "activeCard st = None"
  then show "modalActiveCardIndex (render d st) = [Some PNull]"
    and "modalActiveCardIndex (render_p0 d st) = [Some PNull]"
    by (simp_all add: render_def render_p0_def modal_renderWith activeCardIndex_def)
next
  show "attributeOf (PIndex i) = Some (decimal i)"
    by (simp add: attributeOf_def)
  show "Number (JString (decimal i)) = ofNatural i"
    by (simp add: Number_def StringToNumber_decimal)
qed

theorem active_card_index_round_trip_witness:
  "(1::nat) < length (edges dataA)
   \<and> activeCard pageNone = None
   \<and> (\<exists>st'. click 1 (render dataA pageNone) (commit (\<lambda>i. cardB) (render dataA pageNone) pageNone)
               = Some st'
          \<and> modalActiveCardIndex (render dataA st') = [Some (PNumber (Finite 1))])
   \<and> attributes (createNode cardB (cardElement 1 imageB))
       = [(''data-index'', ''1''), (''data-node-base'', ''beta.v2.jpg''),
          (''data-observer-root-margin'', ''0px 0px 25%'')]
   \<and> modalActiveCardIndex
        (render dataA (pageNone\<lparr>activeCard := Some (createNode cardB (cardElement 1 imageB))\<rparr>))
       = [Some (PNumber (Finite 1))]
   \<and> modalActiveCardIndex (render dataA pageNone) = [Some PNull]
   \<and> Number (JString ''1'') = Finite 1"
proof -
  have len: "(1::nat) < length (edges dataA)"
    by (simp add: dataA_def)
  have none: "activeCard pageNone = None"
    by (simp add: pageNone_def)
  have attrs: "attributes (createNode cardB (cardElement 1 imageB))
       = [(''data-index'', ''1''), (''data-node-base'', ''beta.v2.jpg''),
          (''data-observer-root-margin'', ''0px 0px 25%'')]"
    by code_simp
  have after: "modalActiveCardIndex
        (render dataA (pageNone\<lparr>activeCard := Some (createNode cardB (cardElement 1 imageB))\<rparr>))
       = [Some (PNumber (Finite 1))]"
    by code_simp
  have num: "Number (JString ''1'') = Finite 1"
    by code_simp
  from active_card_index_round_trip [where i = 1 and d = dataA and st = pageNone
      and layout = "\<lambda>i. cardB"] len none attrs after num
  show ?thesis by simp
qed

end
